theory Spec2Isabelle
  imports Complex_Main
begin

section \<open>Numbers\<close>

text \<open>
  The program computes in C++ \<^verbatim>\<open>double\<close> and \<^verbatim>\<open>int\<close>. A finite double is modelled as a
  \<^typ>\<open>real\<close> and its arithmetic as exact real arithmetic (rounding is not modelled); an
  \<^verbatim>\<open>int\<close> is modelled as an \<^typ>\<open>int\<close> whose value is assumed to fit the machine word (a
  grid of \<open>nsteps\<^sup>2\<close> doubles has to fit in memory). The quotient of a division whose
  denominator can be zero is a \<open>double\<close>: a finite value, an infinity, or not-a-number.
\<close>

definition TINY :: real where
  "TINY = 1 / 10 ^ 12"

datatype double = Fin real | Inf | NaN

text \<open>\<^verbatim>\<open>a / b\<close> on doubles: \<open>0/0\<close> is NaN, \<open>a/0\<close> is an infinity (its sign is not kept).\<close>

definition fdiv :: "real \<Rightarrow> real \<Rightarrow> double" where
  "fdiv a b = (if b \<noteq> 0 then Fin (a / b) else if a = 0 then NaN else Inf)"

definition is_finite :: "double \<Rightarrow> bool" where
  "is_finite d = (case d of Fin v \<Rightarrow> True | Inf \<Rightarrow> False | NaN \<Rightarrow> False)"

text \<open>\<^verbatim>\<open>static_cast<int>\<close> of a double: truncation toward zero.\<close>

definition to_int :: "real \<Rightarrow> int" where
  "to_int v = (if v < 0 then \<lceil>v\<rceil> else \<lfloor>v\<rfloor>)"

text \<open>
  \<^verbatim>\<open>std::pow\<close> at the arguments the program passes when thickness values are not negative:
  a base that is not negative, and a non-zero exponent when the base is zero.
\<close>

definition std_pow :: "real \<Rightarrow> real \<Rightarrow> real" where
  "std_pow a p = a powr p"

text \<open>\<^verbatim>\<open>atan2(y, x)\<close>, the angle of the point \<open>(x, y)\<close> in \<open>(-\<pi>, \<pi>]\<close>; \<open>atan2(0, 0) = 0\<close>.\<close>

definition atan2 :: "real \<Rightarrow> real \<Rightarrow> real" where
  "atan2 y x =
     (if 0 < x then arctan (y / x)
      else if x < 0 then (if 0 \<le> y then arctan (y / x) + pi else arctan (y / x) - pi)
      else if 0 < y then pi / 2
      else if y < 0 then - (pi / 2)
      else 0)"

section \<open>The generalized means\<close>

definition positive_pmean :: "real \<Rightarrow> real \<Rightarrow> real \<Rightarrow> real" where
  "positive_pmean p a b = std_pow (0.5 * (std_pow a p + std_pow b p)) (1 / p)"

definition negative_pmean :: "real \<Rightarrow> real \<Rightarrow> real \<Rightarrow> real" where
  "negative_pmean p a b = (if a < TINY \<or> b < TINY then 0 else positive_pmean p a b)"

definition geometric_mean :: "real \<Rightarrow> real \<Rightarrow> real" where
  "geometric_mean a b = sqrt (a * b)"

text \<open>
  The constructor stores one of three closures in \<^verbatim>\<open>compute_reduced_thickness_\<close>; each
  calls \<^verbatim>\<open>compute_reduced_thickness\<close> with one mean. The closure is kept as data: which
  mean it captured, and the exponent \<open>p\<close> it captured.
\<close>

datatype GenMean = Geometric | Positive real | Negative real

fun gen_mean :: "GenMean \<Rightarrow> real \<Rightarrow> real \<Rightarrow> real" where
  "gen_mean Geometric a b = geometric_mean a b"
| "gen_mean (Positive p) a b = positive_pmean p a b"
| "gen_mean (Negative p) a b = negative_pmean p a b"

section \<open>The event\<close>

type_synonym Grid = "real list list"

text \<open>The options of \<^verbatim>\<open>var_map\<close> that the constructor reads.\<close>

record VarMap =
  normalization :: real
  grid_step :: real
  grid_max :: real
  reduced_thickness :: real
  ncoll :: bool

text \<open>
  The members of \<^verbatim>\<open>Event\<close> that \<^verbatim>\<open>compute\<close> reads or writes, named as in the source
  without the trailing underscore (\<open>norm_v\<close> is \<^verbatim>\<open>norm_\<close>, \<open>compute_reduced_thickness_fn\<close>
  is \<^verbatim>\<open>compute_reduced_thickness_\<close>). \<^verbatim>\<open>eccentricity_\<close> is indexed by small integers; a
  slot the program has not written is \<open>None\<close>.
\<close>

record Event =
  norm_v :: real
  dxy :: real
  nsteps :: int
  xymax :: real
  TA :: Grid
  TB :: Grid
  TR :: Grid
  with_ncoll :: bool
  compute_reduced_thickness_fn :: GenMean
  npart :: int
  multiplicity :: real
  ixcm :: double
  iycm :: double
  eccentricity :: "nat \<rightharpoonup> double"

text \<open>\<^verbatim>\<open>boost::extents[n][n]\<close>: a grid of \<open>n\<close> rows of \<open>n\<close> cells, all zero.\<close>

definition extents :: "int \<Rightarrow> Grid" where
  "extents n = replicate (nat n) (replicate (nat n) 0)"

text \<open>
  \<^verbatim>\<open>Event::Event\<close>. With a zero grid step the quotient \<open>2*max/step\<close> is not finite and
  its conversion to \<^verbatim>\<open>int\<close> is undefined: the model returns \<open>None\<close>. The members the
  constructor does not initialise start at zero (no slot of \<^verbatim>\<open>eccentricity_\<close> written).
\<close>

definition Event_ctor :: "VarMap \<Rightarrow> Event option" where
  "Event_ctor var_map =
     (if grid_step var_map = 0 then None
      else
        let s = grid_step var_map;
            n = \<lceil>2 * grid_max var_map / s\<rceil>;
            p = reduced_thickness var_map
        in Some \<lparr>
             norm_v = normalization var_map,
             dxy = s,
             nsteps = n,
             xymax = 0.5 * real_of_int n * s,
             TA = extents n,
             TB = extents n,
             TR = extents n,
             with_ncoll = ncoll var_map,
             compute_reduced_thickness_fn =
               (if \<bar>p\<bar> < TINY then Geometric
                else if p > 0 then Positive p
                else Negative p),
             npart = 0,
             multiplicity = 0,
             ixcm = Fin 0,
             iycm = Fin 0,
             eccentricity = Map.empty
           \<rparr>)"

section \<open>Thickness accumulation\<close>

text \<open>
  A nucleon and the deposition rule (\<^verbatim>\<open>NucleonCommon\<close>) are declared outside this file. A
  nucleon has a position and its participant flag; the rule gives the support boundary
  \<open>{xmin, xmax, ymin, ymax}\<close> of a nucleon and its thickness at a point.
\<close>

record NucleonData =
  nucleon_x :: real
  nucleon_y :: real
  is_participant :: bool

type_synonym Nucleus = "NucleonData list"

record NucleonCommon =
  boundary :: "NucleonData \<Rightarrow> real \<times> real \<times> real \<times> real"
  thickness :: "NucleonData \<Rightarrow> real \<Rightarrow> real \<Rightarrow> real"

text \<open>\<^verbatim>\<open>clip(value, min, max)\<close>.\<close>

definition clip :: "int \<Rightarrow> int \<Rightarrow> int \<Rightarrow> int" where
  "clip v lo hi = (if v < lo then lo else if v > hi then hi else v)"

text \<open>
  \<^verbatim>\<open>TX[iy][ix] += v\<close>. The indices are the program's \<^verbatim>\<open>int\<close>s; an index outside the grid
  is an access out of range, which the model reports as \<open>None\<close>.
\<close>

definition grid_add :: "Grid \<Rightarrow> int \<Rightarrow> int \<Rightarrow> real \<Rightarrow> Grid option" where
  "grid_add TX iy ix v =
     (if 0 \<le> iy \<and> iy < int (length TX) \<and> 0 \<le> ix \<and> ix < int (length (TX ! nat iy))
      then Some (TX[nat iy := (TX ! nat iy)[nat ix := TX ! nat iy ! nat ix + v]])
      else None)"

text \<open>A loop whose body can fail: it stops at the first failure.\<close>

primrec loop :: "('a \<Rightarrow> 's \<Rightarrow> 's option) \<Rightarrow> 'a list \<Rightarrow> 's \<Rightarrow> 's option" where
  "loop body [] s = Some s"
| "loop body (a # as) s = (case body a s of None \<Rightarrow> None | Some s' \<Rightarrow> loop body as s')"

text \<open>The physical coordinate of the centre of the cell with index \<open>i\<close> on one axis.\<close>

definition cell_center :: "Event \<Rightarrow> int \<Rightarrow> real" where
  "cell_center ev i = (real_of_int i + 0.5) * dxy ev - xymax ev"

text \<open>The index bound of a boundary coordinate: the clipped, truncated quotient.\<close>

definition grid_index :: "Event \<Rightarrow> real \<Rightarrow> int" where
  "grid_index ev c = clip (to_int ((c + xymax ev) / dxy ev)) 0 (nsteps ev - 1)"

text \<open>The two \<^verbatim>\<open>for\<close> loops that add the profile of one nucleon to the grid.\<close>

definition add_profile ::
  "Event \<Rightarrow> NucleonCommon \<Rightarrow> NucleonData \<Rightarrow> int \<Rightarrow> int \<Rightarrow> int \<Rightarrow> int \<Rightarrow> Grid \<Rightarrow> Grid option" where
  "add_profile ev nucleon_common nucleon ixmin ixmax iymin iymax =
     loop (\<lambda>iy.
       loop (\<lambda>ix TX.
         grid_add TX iy ix
           (thickness nucleon_common nucleon (cell_center ev ix) (cell_center ev iy)))
         [ixmin..ixmax])
       [iymin..iymax]"

text \<open>The body of the loop over the nucleons; the state is the grid and \<^verbatim>\<open>npart_\<close>.\<close>

definition deposit_nucleon ::
  "Event \<Rightarrow> NucleonCommon \<Rightarrow> NucleonData \<Rightarrow> Grid \<times> int \<Rightarrow> (Grid \<times> int) option" where
  "deposit_nucleon ev nucleon_common nucleon = (\<lambda>(TX, np).
     if \<not> is_participant nucleon then Some (TX, np)
     else
       let np' = np + 1;
           (bxmin, bxmax, bymin, bymax) = boundary nucleon_common nucleon;
           ixmin = grid_index ev bxmin;
           ixmax = grid_index ev bxmax;
           iymin = grid_index ev bymin;
           iymax = grid_index ev bymax
       in case add_profile ev nucleon_common nucleon ixmin ixmax iymin iymax TX of
            None \<Rightarrow> None
          | Some TX' \<Rightarrow> Some (TX', np'))"

text \<open>\<^verbatim>\<open>std::fill\<close> over all elements of the grid.\<close>

definition wipe :: "Grid \<Rightarrow> Grid" where
  "wipe TX = map (map (\<lambda>c. 0)) TX"

text \<open>
  \<^verbatim>\<open>Event::compute_nuclear_thickness\<close>. It returns the grid \<^verbatim>\<open>TX\<close> and the counter
  \<^verbatim>\<open>npart_\<close> as the loop leaves them.
\<close>

definition compute_nuclear_thickness ::
  "Event \<Rightarrow> Nucleus \<Rightarrow> NucleonCommon \<Rightarrow> Grid \<Rightarrow> (Grid \<times> int) option" where
  "compute_nuclear_thickness ev nucleus nucleon_common TX =
     loop (deposit_nucleon ev nucleon_common) nucleus (wipe TX, npart ev)"

section \<open>Reduced thickness\<close>

text \<open>
  The body of the two loops of \<^verbatim>\<open>compute_reduced_thickness\<close>; the state is the grid
  \<^verbatim>\<open>TR_\<close> and the local sums \<^verbatim>\<open>sum\<close>, \<^verbatim>\<open>ixcm\<close>, \<^verbatim>\<open>iycm\<close>. The indices run below
  \<^verbatim>\<open>nsteps_\<close>, the extent of every grid of the event.
\<close>

definition reduce_cell ::
  "(real \<Rightarrow> real \<Rightarrow> real) \<Rightarrow> Event \<Rightarrow> nat \<Rightarrow> nat
     \<Rightarrow> Grid \<times> real \<times> real \<times> real \<Rightarrow> Grid \<times> real \<times> real \<times> real" where
  "reduce_cell mean ev iy ix = (\<lambda>(TR', sm, ixs, iys).
     let t = norm_v ev * mean (TA ev ! iy ! ix) (TB ev ! iy ! ix)
     in (TR'[iy := (TR' ! iy)[ix := t]], sm + t, ixs + t * real ix, iys + t * real iy))"

definition reduce_loops ::
  "(real \<Rightarrow> real \<Rightarrow> real) \<Rightarrow> Event \<Rightarrow> Grid \<times> real \<times> real \<times> real" where
  "reduce_loops mean ev =
     fold (\<lambda>iy. fold (reduce_cell mean ev iy) [0..<nat (nsteps ev)]) [0..<nat (nsteps ev)]
       (TR ev, 0, 0, 0)"

definition compute_reduced_thickness :: "(real \<Rightarrow> real \<Rightarrow> real) \<Rightarrow> Event \<Rightarrow> Event" where
  "compute_reduced_thickness mean ev =
     (case reduce_loops mean ev of (TR', sm, ixs, iys) \<Rightarrow>
        ev\<lparr>TR := TR',
           multiplicity := dxy ev * dxy ev * sm,
           ixcm := fdiv ixs sm,
           iycm := fdiv iys sm\<rparr>)"

text \<open>Calling the closure that the constructor stored.\<close>

definition call_compute_reduced_thickness :: "Event \<Rightarrow> Event" where
  "call_compute_reduced_thickness ev =
     compute_reduced_thickness (gen_mean (compute_reduced_thickness_fn ev)) ev"

section \<open>Observables\<close>

text \<open>
  The three accumulator structs of \<^verbatim>\<open>compute_observables\<close> have the same members and
  differ in \<^verbatim>\<open>finish\<close>.
\<close>

record Accumulator =
  re :: real
  im :: real
  wt :: real

definition zero_acc :: Accumulator where
  "zero_acc = \<lparr>re = 0, im = 0, wt = 0\<rparr>"

definition ecc_finish :: "Accumulator \<Rightarrow> real" where
  "ecc_finish a = sqrt (re a * re a + im a * im a) / max (wt a) TINY"

definition angle_finish :: "Accumulator \<Rightarrow> real" where
  "angle_finish a = wt a * (atan2 (im a) (re a) + pi)"

definition radius_finish :: "Accumulator \<Rightarrow> real" where
  "radius_finish a = max (wt a) TINY"

text \<open>
  The terms a cell of value \<open>t\<close> at \<open>(x, y)\<close> from the centre of mass adds to the
  accumulator of order \<open>n\<close>, with the cached powers of the source.
\<close>

definition harmonic_re :: "nat \<Rightarrow> real \<Rightarrow> real \<Rightarrow> real \<Rightarrow> real" where
  "harmonic_re n t x y =
     (let x2 = x * x; x4 = x2 * x2;
          y2 = y * y; y3 = y2 * y; y4 = y2 * y2;
          x2y2 = x2 * y2
      in if n = 2 then t * (y2 - x2)
         else if n = 3 then t * (y3 - 3 * y * x2)
         else if n = 4 then t * (x4 + y4 - 6 * x2y2)
         else t * y * (5 * x4 - 10 * x2y2 + y4))"

definition harmonic_im :: "nat \<Rightarrow> real \<Rightarrow> real \<Rightarrow> real \<Rightarrow> real" where
  "harmonic_im n t x y =
     (let x2 = x * x; x3 = x2 * x; x4 = x2 * x2;
          y2 = y * y; y4 = y2 * y2;
          xy = x * y; x2y2 = x2 * y2
      in if n = 2 then t * 2 * xy
         else if n = 3 then t * (3 * x * y2 - x3)
         else if n = 4 then t * 4 * xy * (y2 - x2)
         else t * x * (x4 - 10 * x2y2 + 5 * y4))"

definition harmonic_wt :: "nat \<Rightarrow> real \<Rightarrow> real \<Rightarrow> real \<Rightarrow> real" where
  "harmonic_wt n t x y =
     (let r2 = x * x + y * y; r = sqrt r2; r4 = r2 * r2
      in if n = 2 then t * r2
         else if n = 3 then t * r2 * r
         else if n = 4 then t * r4
         else t * r4 * r)"

text \<open>\<^verbatim>\<open>e.re += ...; e.im += ...; e.wt += ...\<close> for the accumulator of order \<open>n\<close>.\<close>

definition accumulate :: "nat \<Rightarrow> real \<Rightarrow> real \<Rightarrow> real \<Rightarrow> Accumulator \<Rightarrow> Accumulator" where
  "accumulate n t x y a =
     \<lparr>re = re a + harmonic_re n t x y,
      im = im a + harmonic_im n t x y,
      wt = wt a + harmonic_wt n t x y\<rparr>"

text \<open>\<^verbatim>\<open>a.re += ...; a.im += ...; a.wt = 1./n\<close> in the angle pass.\<close>

definition accumulate_angle :: "nat \<Rightarrow> real \<Rightarrow> real \<Rightarrow> real \<Rightarrow> Accumulator \<Rightarrow> Accumulator" where
  "accumulate_angle n t x y a =
     \<lparr>re = re a + harmonic_re n t x y,
      im = im a + harmonic_im n t x y,
      wt = 1 / real n\<rparr>"

text \<open>The local variables of the first pass, of the second and of the third.\<close>

record EccState =
  e2 :: Accumulator
  e3 :: Accumulator
  e4 :: Accumulator
  e5 :: Accumulator
  Si :: real

record AngleState =
  a2 :: Accumulator
  a3 :: Accumulator
  a4 :: Accumulator
  a5 :: Accumulator
  Sia :: real

record RadiusState =
  R2 :: Accumulator
  R3 :: Accumulator
  R4 :: Accumulator
  R5 :: Accumulator
  total_ent :: real
  Sir :: real

text \<open>
  The loop bodies after the test \<^verbatim>\<open>if (t < TINY) continue\<close>, for a cell of value \<open>t\<close> at
  \<open>(x, y)\<close> from the centre of mass. In the first two passes \<^verbatim>\<open>total_ent\<close> is a local
  of the body and is not kept.
\<close>

definition ecc_add :: "real \<times> real \<times> real \<Rightarrow> EccState \<Rightarrow> EccState" where
  "ecc_add = (\<lambda>(t, x, y) s.
     \<lparr>e2 = accumulate 2 t x y (e2 s),
      e3 = accumulate 3 t x y (e3 s),
      e4 = accumulate 4 t x y (e4 s),
      e5 = accumulate 5 t x y (e5 s),
      Si = Si s + std_pow t (4 / 3)\<rparr>)"

definition angle_add :: "real \<times> real \<times> real \<Rightarrow> AngleState \<Rightarrow> AngleState" where
  "angle_add = (\<lambda>(t, x, y) s.
     \<lparr>a2 = accumulate_angle 2 t x y (a2 s),
      a3 = accumulate_angle 3 t x y (a3 s),
      a4 = accumulate_angle 4 t x y (a4 s),
      a5 = accumulate_angle 5 t x y (a5 s),
      Sia = Sia s + std_pow t (4 / 3)\<rparr>)"

definition radius_add :: "real \<times> real \<times> real \<Rightarrow> RadiusState \<Rightarrow> RadiusState" where
  "radius_add = (\<lambda>(t, x, y) s.
     \<lparr>R2 = accumulate 2 t x y (R2 s),
      R3 = accumulate 3 t x y (R3 s),
      R4 = accumulate 4 t x y (R4 s),
      R5 = accumulate 5 t x y (R5 s),
      total_ent = total_ent s + t,
      Sir = Sir s + std_pow t (4 / 3)\<rparr>)"

text \<open>
  One iteration of a pass at the cell \<open>(ix, iy)\<close>: the test, then the coordinates from
  the centre of mass (\<^verbatim>\<open>ixcm_\<close>, \<^verbatim>\<open>iycm_\<close>, in index units), then the body. A cell that
  passes the test while the centre of mass is not finite makes the body compute with
  NaN, which the model does not follow: the pass is \<open>None\<close> then.
\<close>

definition at_cell ::
  "(real \<times> real \<times> real \<Rightarrow> 's \<Rightarrow> 's) \<Rightarrow> Event \<Rightarrow> nat \<Rightarrow> nat \<Rightarrow> 's \<Rightarrow> 's option" where
  "at_cell body ev iy ix s =
     (let t = TR ev ! iy ! ix
      in if t < TINY then Some s
         else (case (ixcm ev, iycm ev) of
                 (Fin cx, Fin cy) \<Rightarrow> Some (body (t, real ix - cx, real iy - cy) s)
               | _ \<Rightarrow> None))"

definition pass :: "(real \<times> real \<times> real \<Rightarrow> 's \<Rightarrow> 's) \<Rightarrow> Event \<Rightarrow> 's \<Rightarrow> 's option" where
  "pass body ev =
     loop (\<lambda>iy. loop (at_cell body ev iy) [0..<nat (nsteps ev)]) [0..<nat (nsteps ev)]"

definition ecc_pass :: "Event \<Rightarrow> EccState option" where
  "ecc_pass ev =
     pass ecc_add ev
       \<lparr>e2 = zero_acc, e3 = zero_acc, e4 = zero_acc, e5 = zero_acc, Si = 0\<rparr>"

definition angle_pass :: "Event \<Rightarrow> AngleState option" where
  "angle_pass ev =
     pass angle_add ev
       \<lparr>a2 = zero_acc, a3 = zero_acc, a4 = zero_acc, a5 = zero_acc, Sia = 0\<rparr>"

definition radius_pass :: "Event \<Rightarrow> RadiusState option" where
  "radius_pass ev =
     pass radius_add ev
       \<lparr>R2 = zero_acc, R3 = zero_acc, R4 = zero_acc, R5 = zero_acc, total_ent = 0, Sir = 0\<rparr>"

text \<open>
  \<^verbatim>\<open>Event::compute_observables\<close>: the three passes, each followed by its writes to
  \<^verbatim>\<open>eccentricity_\<close>. The last three quotients have the denominator \<^verbatim>\<open>total_ent\<close>.
\<close>

definition compute_observables :: "Event \<Rightarrow> Event option" where
  "compute_observables ev =
     (case (ecc_pass ev, angle_pass ev, radius_pass ev) of
        (Some e, Some a, Some r) \<Rightarrow>
          Some (ev\<lparr>eccentricity := (eccentricity ev)
               (2 \<mapsto> Fin (dxy ev * dxy ev * Si e),
                3 \<mapsto> Fin (ecc_finish (e2 e)),
                4 \<mapsto> Fin (ecc_finish (e3 e)),
                5 \<mapsto> Fin (ecc_finish (e4 e)),
                6 \<mapsto> Fin (angle_finish (a2 a)),
                7 \<mapsto> Fin (angle_finish (a3 a)),
                8 \<mapsto> Fin (angle_finish (a4 a)),
                9 \<mapsto> fdiv (dxy ev * dxy ev * radius_finish (R2 r)) (total_ent r),
                10 \<mapsto> fdiv (dxy ev * dxy ev * radius_finish (R3 r)) (total_ent r),
                11 \<mapsto> fdiv (dxy ev * dxy ev * radius_finish (R4 r)) (total_ent r))\<rparr>)
      | _ \<Rightarrow> None)"

text \<open>\<^verbatim>\<open>Event::compute\<close>.\<close>

definition compute :: "Event \<Rightarrow> Nucleus \<Rightarrow> Nucleus \<Rightarrow> NucleonCommon \<Rightarrow> Event option" where
  "compute ev nucleusA nucleusB nucleon_common =
     (case compute_nuclear_thickness (ev\<lparr>npart := 0\<rparr>) nucleusA nucleon_common (TA ev) of
        None \<Rightarrow> None
      | Some (TA', npA) \<Rightarrow>
          (case compute_nuclear_thickness (ev\<lparr>npart := npA\<rparr>) nucleusB nucleon_common (TB ev) of
             None \<Rightarrow> None
           | Some (TB', npB) \<Rightarrow>
               compute_observables
                 (call_compute_reduced_thickness (ev\<lparr>TA := TA', TB := TB', npart := npB\<rparr>))))"

text \<open>The grids of an event have \<^verbatim>\<open>nsteps_\<close> rows of \<^verbatim>\<open>nsteps_\<close> cells.\<close>

definition wf_grid :: "int \<Rightarrow> Grid \<Rightarrow> bool" where
  "wf_grid n g = (length g = nat n \<and> list_all (\<lambda>row. length row = nat n) g)"

definition wf_event :: "Event \<Rightarrow> bool" where
  "wf_event ev = (wf_grid (nsteps ev) (TA ev) \<and> wf_grid (nsteps ev) (TB ev) \<and> wf_grid (nsteps ev) (TR ev))"

section \<open>Values the statements refer to\<close>

text \<open>The value \<^verbatim>\<open>compute_reduced_thickness\<close> writes to the cell \<open>(ix, iy)\<close>.\<close>

definition cell_value :: "(real \<Rightarrow> real \<Rightarrow> real) \<Rightarrow> Event \<Rightarrow> nat \<Rightarrow> nat \<Rightarrow> real" where
  "cell_value mean ev iy ix = norm_v ev * mean (TA ev ! iy ! ix) (TB ev ! iy ! ix)"

text \<open>An event on a grid of two by two cells, with thickness in both nuclei.\<close>

definition example_event :: Event where
  "example_event =
     \<lparr>norm_v = 2, dxy = 1 / 2, nsteps = 2, xymax = 1 / 2,
      TA = [[1, 4], [0, 2]], TB = [[1, 1], [5, 2]], TR = [[0, 0], [0, 0]],
      with_ncoll = False, compute_reduced_thickness_fn = Geometric,
      npart = 0, multiplicity = 0, ixcm = Fin 0, iycm = Fin 0, eccentricity = Map.empty\<rparr>"

text \<open>
  What one nucleon adds to the cell \<open>(ix, iy)\<close>: its thickness at the centre of the cell
  when it is a participant and the cell lies in its index rectangle, both ends included.
\<close>

definition deposit :: "Event \<Rightarrow> NucleonCommon \<Rightarrow> NucleonData \<Rightarrow> int \<Rightarrow> int \<Rightarrow> real" where
  "deposit ev nucleon_common nucleon iy ix =
     (case boundary nucleon_common nucleon of (bxmin, bxmax, bymin, bymax) \<Rightarrow>
        if is_participant nucleon
           \<and> grid_index ev bxmin \<le> ix \<and> ix \<le> grid_index ev bxmax
           \<and> grid_index ev bymin \<le> iy \<and> iy \<le> grid_index ev bymax
        then thickness nucleon_common nucleon (cell_center ev ix) (cell_center ev iy)
        else 0)"

text \<open>A deposition rule with a small square support, and a nucleus of two nucleons.\<close>

definition example_common :: NucleonCommon where
  "example_common =
     \<lparr>boundary = (\<lambda>nucleon. (nucleon_x nucleon - 1 / 8, nucleon_x nucleon + 1 / 8,
                              nucleon_y nucleon - 1 / 8, nucleon_y nucleon + 1 / 8)),
      thickness = (\<lambda>nucleon x y. 3)\<rparr>"

definition example_nucleus :: Nucleus where
  "example_nucleus =
     [\<lparr>nucleon_x = - (1 / 4), nucleon_y = 1 / 4, is_participant = True\<rparr>,
      \<lparr>nucleon_x = 1 / 4, nucleon_y = 1 / 4, is_participant = False\<rparr>]"

text \<open>A deposition rule whose support lies outside the grid.\<close>

definition far_common :: NucleonCommon where
  "far_common =
     \<lparr>boundary = (\<lambda>nucleon. (100, 200, - 300, - 200)),
      thickness = (\<lambda>nucleon x y. 1)\<rparr>"

definition example_var_map :: VarMap where
  "example_var_map =
     \<lparr>normalization = 1, grid_step = 1, grid_max = 1, reduced_thickness = 1, ncoll = False\<rparr>"

text \<open>The generalized mean of exponent \<open>p\<close> as the specification words it.\<close>

definition spec_mean :: "real \<Rightarrow> real \<Rightarrow> real \<Rightarrow> real" where
  "spec_mean p a b =
     (if \<bar>p\<bar> < 1 / 10 ^ 12 then sqrt (a * b)
      else if p > 0 then (0.5 * (a powr p + b powr p)) powr (1 / p)
      else if a < 1 / 10 ^ 12 \<or> b < 1 / 10 ^ 12 then 0
      else (0.5 * (a powr p + b powr p)) powr (1 / p))"

text \<open>Thickness values are not negative.\<close>

definition nonneg_grid :: "Grid \<Rightarrow> bool" where
  "nonneg_grid g = list_all (list_all (\<lambda>c. 0 \<le> c)) g"










text \<open>The example event after \<^verbatim>\<open>compute_reduced_thickness\<close> with the geometric mean.\<close>

definition example_reduced :: Event where
  "example_reduced =
     \<lparr>norm_v = 2, dxy = 1 / 2, nsteps = 2, xymax = 1 / 2,
      TA = [[1, 4], [0, 2]], TB = [[1, 1], [5, 2]], TR = [[2, 4], [0, 4]],
      with_ncoll = False, compute_reduced_thickness_fn = Geometric,
      npart = 0, multiplicity = 5 / 2, ixcm = Fin (4 / 5), iycm = Fin (2 / 5),
      eccentricity = Map.empty\<rparr>"








text \<open>
  The terms of the naive formulation: \<open>t * r^n * cos (n * phi)\<close> and
  \<open>t * r^n * sin (n * phi)\<close> with \<open>phi = atan2 (y, x)\<close>.
\<close>

definition naive_re :: "nat \<Rightarrow> real \<Rightarrow> real \<Rightarrow> real \<Rightarrow> real" where
  "naive_re n t x y = t * sqrt (x * x + y * y) ^ n * cos (real n * atan2 y x)"

definition naive_im :: "nat \<Rightarrow> real \<Rightarrow> real \<Rightarrow> real \<Rightarrow> real" where
  "naive_im n t x y = t * sqrt (x * x + y * y) ^ n * sin (real n * atan2 y x)"

text \<open>A second nucleus, whose participant lies in another cell.\<close>

definition other_nucleus :: Nucleus where
  "other_nucleus = [\<lparr>nucleon_x = 1 / 4, nucleon_y = - (1 / 4), is_participant = True\<rparr>]"

section \<open>Grid construction\<close>



section \<open>The combiner\<close>

lemma row_update_step:
  assumes "k < length row"
  shows "(map f [0..<k] @ drop k row)[k := v] = map f [0..<k] @ v # drop (Suc k) row"
proof -
  have "drop k row = row ! k # drop (Suc k) row"
    using assms by (simp add: Cons_nth_drop_Suc)
  then show ?thesis
    by (simp add: list_update_append)
qed

lemma reduce_row:
  assumes "iy < length G" and "k \<le> length (G ! iy)"
  shows "fold (reduce_cell mean ev iy) [0..<k] (G, s, a, b) =
           (G[iy := map (cell_value mean ev iy) [0..<k] @ drop k (G ! iy)],
            s + (\<Sum>ix\<leftarrow>[0..<k]. cell_value mean ev iy ix),
            a + (\<Sum>ix\<leftarrow>[0..<k]. cell_value mean ev iy ix * real ix),
            b + (\<Sum>ix\<leftarrow>[0..<k]. cell_value mean ev iy ix * real iy))"
  using assms(2)
proof (induction k)
  case 0
  then show ?case by simp
next
  case (Suc k)
  then have k: "k < length (G ! iy)" by simp
  show ?case
    using Suc.IH k assms(1)
    by (simp add: reduce_cell_def Let_def cell_value_def [symmetric] row_update_step)
qed

lemma reduce_rows:
  assumes "k \<le> length G" and "list_all (\<lambda>row. length row = n) G"
  shows "fold (\<lambda>iy. fold (reduce_cell mean ev iy) [0..<n]) [0..<k] (G, s, a, b) =
           (map (\<lambda>iy. map (cell_value mean ev iy) [0..<n]) [0..<k] @ drop k G,
            s + (\<Sum>iy\<leftarrow>[0..<k]. \<Sum>ix\<leftarrow>[0..<n]. cell_value mean ev iy ix),
            a + (\<Sum>iy\<leftarrow>[0..<k]. \<Sum>ix\<leftarrow>[0..<n]. cell_value mean ev iy ix * real ix),
            b + (\<Sum>iy\<leftarrow>[0..<k]. \<Sum>ix\<leftarrow>[0..<n]. cell_value mean ev iy ix * real iy))"
  using assms(1)
proof (induction k)
  case 0
  then show ?case by simp
next
  case (Suc k)
  let ?G = "map (\<lambda>iy. map (cell_value mean ev iy) [0..<n]) [0..<k] @ drop k G"
  from Suc.prems have k: "k < length G" by simp
  then have len: "k < length ?G" by simp
  have row: "?G ! k = G ! k"
    using k by (simp add: nth_append)
  have "length (G ! k) = n"
    using assms(2) k by (simp add: list_all_length)
  then have n: "n \<le> length (?G ! k)" and dr: "drop n (G ! k) = []"
    using row by simp_all
  have upd: "?G[k := map (cell_value mean ev k) [0..<n]] =
      map (\<lambda>iy. map (cell_value mean ev iy) [0..<n]) [0..<k]
        @ map (cell_value mean ev k) [0..<n] # drop (Suc k) G"
    using row_update_step [OF k] by simp
  show ?case
    using Suc.IH k reduce_row [OF len n] upd
    by (simp add: row dr add.assoc)
qed


lemma reduce_loops_eq:
  assumes "wf_grid (nsteps ev) (TR ev)"
  shows "reduce_loops mean ev =
           (map (\<lambda>iy. map (cell_value mean ev iy) [0..<nat (nsteps ev)]) [0..<nat (nsteps ev)],
            (\<Sum>iy\<leftarrow>[0..<nat (nsteps ev)]. \<Sum>ix\<leftarrow>[0..<nat (nsteps ev)]. cell_value mean ev iy ix),
            (\<Sum>iy\<leftarrow>[0..<nat (nsteps ev)]. \<Sum>ix\<leftarrow>[0..<nat (nsteps ev)].
               cell_value mean ev iy ix * real ix),
            (\<Sum>iy\<leftarrow>[0..<nat (nsteps ev)]. \<Sum>ix\<leftarrow>[0..<nat (nsteps ev)].
               cell_value mean ev iy ix * real iy))"
proof -
  have "nat (nsteps ev) \<le> length (TR ev)"
    and "list_all (\<lambda>row. length row = nat (nsteps ev)) (TR ev)"
    and "drop (nat (nsteps ev)) (TR ev) = []"
    using assms by (simp_all add: wf_grid_def)
  then show ?thesis
    unfolding reduce_loops_def by (simp add: reduce_rows)
qed

text \<open>
  C1. The combiner writes \<open>norm * mean (TA[iy][ix], TB[iy][ix])\<close> to every cell of the
  reduced field, and the multiplicity it reports is \<open>dxy\<^sup>2\<close> times the sum of the cells
  of the field it produced.
\<close>

theorem reduced_thickness_round_trip:
  assumes "wf_event ev"
  shows "wf_grid (nsteps ev) (TR (compute_reduced_thickness mean ev))
       \<and> (\<forall>iy < nat (nsteps ev). \<forall>ix < nat (nsteps ev).
            TR (compute_reduced_thickness mean ev) ! iy ! ix =
              norm_v ev * mean (TA ev ! iy ! ix) (TB ev ! iy ! ix))
       \<and> multiplicity (compute_reduced_thickness mean ev) =
           dxy ev * dxy ev * (\<Sum>row\<leftarrow>TR (compute_reduced_thickness mean ev). sum_list row)"
proof -
  have wf: "wf_grid (nsteps ev) (TR ev)"
    using assms by (simp add: wf_event_def)
  have cv: "cell_value mean ev = (\<lambda>iy ix. norm_v ev * mean (TA ev ! iy ! ix) (TB ev ! iy ! ix))"
    by (intro ext) (simp add: cell_value_def)
  show ?thesis
    by (simp add: compute_reduced_thickness_def reduce_loops_eq [OF wf] wf_grid_def
        list_all_length cv comp_def)
qed

theorem reduced_thickness_round_trip_witness:
  "wf_event example_event
   \<and> TR (compute_reduced_thickness geometric_mean example_event) = [[2, 4], [0, 4]]
   \<and> multiplicity (compute_reduced_thickness geometric_mean example_event) = 5 / 2"
proof -
  have wf: "wf_event example_event"
    by (simp add: wf_event_def wf_grid_def example_event_def)
  have s4: "sqrt 4 = 2"
    by simp
  have "TR (compute_reduced_thickness geometric_mean example_event) = [[2, 4], [0, 4]]"
    using s4 by (simp add: compute_reduced_thickness_def reduce_loops_def reduce_cell_def example_event_def
        geometric_mean_def upt_rec numeral_eq_Suc)
  then show ?thesis
    using wf reduced_thickness_round_trip [OF wf, of geometric_mean]
    by (simp add: example_event_def)
qed

lemma example_reduced_eq:
  "compute_reduced_thickness geometric_mean example_event = example_reduced"
proof -
  have "sqrt 4 = 2"
    by simp
  then show ?thesis
    by (simp add: compute_reduced_thickness_def reduce_loops_def reduce_cell_def example_event_def
        example_reduced_def geometric_mean_def fdiv_def upt_rec numeral_eq_Suc)
qed

section \<open>The thickness accumulator and the mean selector\<close>

lemma clip_bounds: "lo \<le> hi \<Longrightarrow> lo \<le> clip v lo hi \<and> clip v lo hi \<le> hi"
  by (simp add: clip_def)

lemma grid_index_bounds:
  "0 < nsteps ev \<Longrightarrow> 0 \<le> grid_index ev c \<and> grid_index ev c < nsteps ev"
  using clip_bounds [of 0 "nsteps ev - 1"] by (simp add: grid_index_def)

lemma wf_grid_row: "wf_grid n TX \<Longrightarrow> j < nat n \<Longrightarrow> length (TX ! j) = nat n"
  by (simp add: wf_grid_def list_all_length)

lemma grid_add_Some:
  assumes "wf_grid n TX" and "0 \<le> iy" and "iy < n" and "0 \<le> ix" and "ix < n"
  shows "\<exists>TX'. grid_add TX iy ix v = Some TX' \<and> wf_grid n TX'
           \<and> (\<forall>j < nat n. \<forall>i < nat n.
                 TX' ! j ! i = TX ! j ! i + (if int j = iy \<and> int i = ix then v else 0))"
proof -
  have len: "length TX = nat n" and row: "length (TX ! nat iy) = nat n"
    using assms by (simp_all add: wf_grid_def list_all_length)
  have "wf_grid n (TX[nat iy := (TX ! nat iy)[nat ix := TX ! nat iy ! nat ix + v]])"
    using assms row len
    by (auto simp add: wf_grid_def list_all_length nth_list_update)
  moreover have "\<forall>j < nat n. \<forall>i < nat n.
      (TX[nat iy := (TX ! nat iy)[nat ix := TX ! nat iy ! nat ix + v]]) ! j ! i
        = TX ! j ! i + (if int j = iy \<and> int i = ix then v else 0)"
    using len row assms(2-5) by (auto simp add: nth_list_update)
  ultimately show ?thesis
    using len row assms(2-5) by (simp add: grid_add_def)
qed

lemma add_row:
  assumes "0 \<le> iy" and "iy < n"
  shows "wf_grid n TX \<Longrightarrow> 0 \<le> lo \<Longrightarrow> hi < n \<Longrightarrow>
         \<exists>TX'. loop (\<lambda>ix G. grid_add G iy ix (f ix)) [lo..hi] TX = Some TX' \<and> wf_grid n TX'
           \<and> (\<forall>j < nat n. \<forall>i < nat n.
                 TX' ! j ! i = TX ! j ! i
                   + (if int j = iy \<and> lo \<le> int i \<and> int i \<le> hi then f (int i) else 0))"
proof (induction lo hi arbitrary: TX rule: upto.induct)
  case (1 lo hi)
  show ?case
  proof (cases "lo \<le> hi")
    case False
    then show ?thesis
      using "1.prems" by simp
  next
    case True
    then have "lo < n"
      using "1.prems"(3) by linarith
    from grid_add_Some [OF "1.prems"(1) assms(1,2) "1.prems"(2) this, of "f lo"]
    obtain G where G: "grid_add TX iy lo (f lo) = Some G" "wf_grid n G"
      and Gc: "\<forall>j < nat n. \<forall>i < nat n.
                 G ! j ! i = TX ! j ! i + (if int j = iy \<and> int i = lo then f lo else 0)"
      by blast
    from "1.IH" [OF True G(2)] "1.prems"(2,3)
    obtain TX' where T: "loop (\<lambda>ix G. grid_add G iy ix (f ix)) [lo + 1..hi] G = Some TX'"
        "wf_grid n TX'"
      and Tc: "\<forall>j < nat n. \<forall>i < nat n.
                 TX' ! j ! i = G ! j ! i
                   + (if int j = iy \<and> lo + 1 \<le> int i \<and> int i \<le> hi then f (int i) else 0)"
      by auto
    have "loop (\<lambda>ix G. grid_add G iy ix (f ix)) [lo..hi] TX = Some TX'"
      using True G(1) T(1) by (simp add: upto_rec1)
    moreover have "\<forall>j < nat n. \<forall>i < nat n.
                 TX' ! j ! i = TX ! j ! i
                   + (if int j = iy \<and> lo \<le> int i \<and> int i \<le> hi then f (int i) else 0)"
      using Gc Tc True by auto
    ultimately show ?thesis
      using T(2) by blast
  qed
qed


lemma add_rect:
  assumes "0 \<le> ixmin" and "ixmax < n"
  shows "wf_grid n TX \<Longrightarrow> 0 \<le> lo \<Longrightarrow> hi < n \<Longrightarrow>
         \<exists>TX'. loop (\<lambda>iy. loop (\<lambda>ix G. grid_add G iy ix (f iy ix)) [ixmin..ixmax]) [lo..hi] TX
                  = Some TX' \<and> wf_grid n TX'
           \<and> (\<forall>j < nat n. \<forall>i < nat n.
                 TX' ! j ! i = TX ! j ! i
                   + (if lo \<le> int j \<and> int j \<le> hi \<and> ixmin \<le> int i \<and> int i \<le> ixmax
                      then f (int j) (int i) else 0))"
proof (induction lo hi arbitrary: TX rule: upto.induct)
  case (1 lo hi)
  let ?row = "\<lambda>iy. loop (\<lambda>ix G. grid_add G iy ix (f iy ix)) [ixmin..ixmax]"
  show ?case
  proof (cases "lo \<le> hi")
    case False
    then show ?thesis
      using "1.prems" by simp
  next
    case True
    then have "lo < n"
      using "1.prems"(3) by linarith
    from add_row [OF "1.prems"(2) this "1.prems"(1) assms, of "f lo"]
    obtain G where G: "?row lo TX = Some G" "wf_grid n G"
      and Gc: "\<forall>j < nat n. \<forall>i < nat n.
                 G ! j ! i = TX ! j ! i
                   + (if int j = lo \<and> ixmin \<le> int i \<and> int i \<le> ixmax then f lo (int i) else 0)"
      by blast
    from "1.IH" [OF True G(2)] "1.prems"(2,3)
    obtain TX' where T: "loop ?row [lo + 1..hi] G = Some TX'" "wf_grid n TX'"
      and Tc: "\<forall>j < nat n. \<forall>i < nat n.
                 TX' ! j ! i = G ! j ! i
                   + (if lo + 1 \<le> int j \<and> int j \<le> hi \<and> ixmin \<le> int i \<and> int i \<le> ixmax
                      then f (int j) (int i) else 0)"
      by auto
    have "loop ?row [lo..hi] TX = Some TX'"
      using True G(1) T(1) by (simp add: upto_rec1)
    moreover have "\<forall>j < nat n. \<forall>i < nat n.
                 TX' ! j ! i = TX ! j ! i
                   + (if lo \<le> int j \<and> int j \<le> hi \<and> ixmin \<le> int i \<and> int i \<le> ixmax
                      then f (int j) (int i) else 0)"
      using Gc Tc True by auto
    ultimately show ?thesis
      using T(2) by blast
  qed
qed

lemma deposit_nucleon_Some:
  assumes "0 < nsteps ev" and "wf_grid (nsteps ev) TX"
  shows "\<exists>TX'. deposit_nucleon ev nucleon_common nucleon (TX, np)
                  = Some (TX', np + (if is_participant nucleon then 1 else 0))
           \<and> wf_grid (nsteps ev) TX'
           \<and> (\<forall>j < nat (nsteps ev). \<forall>i < nat (nsteps ev).
                 TX' ! j ! i = TX ! j ! i + deposit ev nucleon_common nucleon (int j) (int i))"
proof (cases "is_participant nucleon")
  case False
  then show ?thesis
    using assms(2) by (simp add: deposit_nucleon_def deposit_def split: prod.splits)
next
  case True
  obtain bxmin bxmax bymin bymax
    where b: "boundary nucleon_common nucleon = (bxmin, bxmax, bymin, bymax)"
    by (cases "boundary nucleon_common nucleon") auto
  let ?t = "\<lambda>iy ix. thickness nucleon_common nucleon (cell_center ev ix) (cell_center ev iy)"
  have bx: "0 \<le> grid_index ev bxmin" "grid_index ev bxmax < nsteps ev"
    and "by": "0 \<le> grid_index ev bymin" "grid_index ev bymax < nsteps ev"
    using grid_index_bounds [OF assms(1)] by simp_all
  from add_rect [OF bx assms(2) "by", of ?t]
  obtain TX' where
    "add_profile ev nucleon_common nucleon (grid_index ev bxmin) (grid_index ev bxmax)
       (grid_index ev bymin) (grid_index ev bymax) TX = Some TX'"
    and "wf_grid (nsteps ev) TX'"
    and "\<forall>j < nat (nsteps ev). \<forall>i < nat (nsteps ev).
           TX' ! j ! i = TX ! j ! i
             + (if grid_index ev bymin \<le> int j \<and> int j \<le> grid_index ev bymax
                   \<and> grid_index ev bxmin \<le> int i \<and> int i \<le> grid_index ev bxmax
                then ?t (int j) (int i) else 0)"
    unfolding add_profile_def by blast
  then show ?thesis
    using True b by (simp add: deposit_nucleon_def deposit_def Let_def)
qed

lemma nucleus_loop:
  assumes "0 < nsteps ev"
  shows "wf_grid (nsteps ev) TX \<Longrightarrow>
         \<exists>TX'. loop (deposit_nucleon ev nucleon_common) nucleus (TX, np)
                  = Some (TX', np + int (length (filter is_participant nucleus)))
           \<and> wf_grid (nsteps ev) TX'
           \<and> (\<forall>j < nat (nsteps ev). \<forall>i < nat (nsteps ev).
                 TX' ! j ! i = TX ! j ! i
                   + (\<Sum>nucleon\<leftarrow>nucleus. deposit ev nucleon_common nucleon (int j) (int i)))"
proof (induction nucleus arbitrary: TX np)
  case Nil
  then show ?case by simp
next
  case (Cons nucleon nucleus)
  from deposit_nucleon_Some [OF assms Cons.prems, of nucleon_common nucleon np]
  obtain G where G: "deposit_nucleon ev nucleon_common nucleon (TX, np)
                  = Some (G, np + (if is_participant nucleon then 1 else 0))"
      "wf_grid (nsteps ev) G"
    and Gc: "\<forall>j < nat (nsteps ev). \<forall>i < nat (nsteps ev).
                 G ! j ! i = TX ! j ! i + deposit ev nucleon_common nucleon (int j) (int i)"
    by blast
  from Cons.IH [OF G(2), of "np + (if is_participant nucleon then 1 else 0)"]
  obtain TX' where T: "loop (deposit_nucleon ev nucleon_common) nucleus
                  (G, np + (if is_participant nucleon then 1 else 0))
                  = Some (TX', np + (if is_participant nucleon then 1 else 0)
                               + int (length (filter is_participant nucleus)))"
      "wf_grid (nsteps ev) TX'"
    and Tc: "\<forall>j < nat (nsteps ev). \<forall>i < nat (nsteps ev).
                 TX' ! j ! i = G ! j ! i
                   + (\<Sum>nucleon\<leftarrow>nucleus. deposit ev nucleon_common nucleon (int j) (int i))"
    by blast
  have "loop (deposit_nucleon ev nucleon_common) (nucleon # nucleus) (TX, np)
          = Some (TX', np + int (length (filter is_participant (nucleon # nucleus))))"
    using G(1) T(1) by simp
  moreover have "\<forall>j < nat (nsteps ev). \<forall>i < nat (nsteps ev).
                 TX' ! j ! i = TX ! j ! i
                   + (\<Sum>m\<leftarrow>nucleon # nucleus. deposit ev nucleon_common m (int j) (int i))"
    using Gc Tc by simp
  ultimately show ?case
    using T(2) by blast
qed

lemma wipe_wf: "wf_grid n TX \<Longrightarrow> wf_grid n (wipe TX)"
  by (simp add: wf_grid_def wipe_def list_all_length)





lemma ctor_wf_event: "Event_ctor var_map = Some ev \<Longrightarrow> wf_event ev"
  by (auto simp add: Event_ctor_def Let_def wf_event_def wf_grid_def extents_def list_all_length
      split: if_splits)

lemma ctor_nsteps_pos:
  assumes "Event_ctor var_map = Some ev" and "0 < grid_step var_map" and "0 < grid_max var_map"
  shows "0 < nsteps ev"
proof -
  have "0 < 2 * grid_max var_map / grid_step var_map"
    using assms(2,3) by simp
  then have "0 < \<lceil>2 * grid_max var_map / grid_step var_map\<rceil>"
    by (simp only: zero_less_ceiling)
  then show ?thesis
    using assms(1) by (auto simp add: Event_ctor_def Let_def split: if_splits)
qed

text \<open>
  C8. On a grid with at least one step, every index bound derived from a boundary
  coordinate lies in \<open>[0, nsteps - 1]\<close>, whatever the coordinate, and the accumulation
  never reads or writes a cell outside the grid.
\<close>

theorem deposition_in_range:
  assumes "0 < nsteps ev" and "wf_grid (nsteps ev) TX"
  shows "0 \<le> grid_index ev c \<and> grid_index ev c \<le> nsteps ev - 1
       \<and> compute_nuclear_thickness ev nucleus nucleon_common TX \<noteq> None"
proof -
  from nucleus_loop [OF assms(1) wipe_wf [OF assms(2)], of nucleon_common nucleus "npart ev"]
  have "compute_nuclear_thickness ev nucleus nucleon_common TX \<noteq> None"
    by (auto simp add: compute_nuclear_thickness_def)
  then show ?thesis
    using grid_index_bounds [OF assms(1), of c] by simp
qed

theorem deposition_in_range_witness:
  "\<exists>ev. Event_ctor example_var_map = Some ev
       \<and> grid_index ev 200 = 1 \<and> grid_index ev (- 300) = 0
       \<and> compute_nuclear_thickness ev example_nucleus far_common (TA ev) \<noteq> None"
proof -
  obtain ev where ev: "Event_ctor example_var_map = Some ev"
    by (simp add: Event_ctor_def example_var_map_def)
  have pos: "0 < nsteps ev"
    using ctor_nsteps_pos [OF ev] by (simp add: example_var_map_def)
  have wf: "wf_grid (nsteps ev) (TA ev)"
    using ctor_wf_event [OF ev] by (simp add: wf_event_def)
  have "grid_index ev 200 = 1" and "grid_index ev (- 300) = 0"
    using ev by (auto simp add: Event_ctor_def example_var_map_def grid_index_def clip_def
        to_int_def Let_def)
  then show ?thesis
    using ev deposition_in_range [OF pos wf, of 200 example_nucleus far_common] by simp
qed

lemma gen_mean_ctor:
  assumes "Event_ctor var_map = Some ev"
  shows "gen_mean (compute_reduced_thickness_fn ev) a b = spec_mean (reduced_thickness var_map) a b"
  using assms
  by (auto simp add: Event_ctor_def Let_def spec_mean_def geometric_mean_def positive_pmean_def
      negative_pmean_def std_pow_def TINY_def split: if_splits)

text \<open>
  C4. The closure the constructor stores for the exponent \<open>p\<close> applies one mean to
  every cell: the geometric mean when \<open>|p| < 1e-12\<close>, else the power mean when \<open>p > 0\<close>,
  else the power mean that is zero when an argument is below \<open>1e-12\<close>.
\<close>

theorem generalized_mean_selection:
  assumes "Event_ctor var_map = Some ev"
    and "wf_grid (nsteps ev) A" and "wf_grid (nsteps ev) B"
    and "nonneg_grid A" and "nonneg_grid B"
    and "iy < nat (nsteps ev)" and "ix < nat (nsteps ev)"
  shows "TR (call_compute_reduced_thickness (ev\<lparr>TA := A, TB := B\<rparr>)) ! iy ! ix
           = normalization var_map
               * spec_mean (reduced_thickness var_map) (A ! iy ! ix) (B ! iy ! ix)"
proof -
  let ?ev = "ev\<lparr>TA := A, TB := B\<rparr>"
  have wf: "wf_grid (nsteps ?ev) (TR ?ev)"
    using ctor_wf_event [OF assms(1)] by (simp add: wf_event_def)
  have nv: "norm_v ev = normalization var_map"
    using assms(1) by (auto simp add: Event_ctor_def Let_def split: if_splits)
  show ?thesis
    using assms(6,7)
    by (simp add: call_compute_reduced_thickness_def compute_reduced_thickness_def
        reduce_loops_eq [OF wf] cell_value_def gen_mean_ctor [OF assms(1)] nv)
qed

theorem generalized_mean_selection_witness:
  "\<exists>ev. Event_ctor example_var_map = Some ev
       \<and> TR (call_compute_reduced_thickness (ev\<lparr>TA := [[1, 4], [0, 2]], TB := [[1, 1], [5, 2]]\<rparr>))
           ! 0 ! 1 = 5 / 2"
proof -
  obtain ev where ev: "Event_ctor example_var_map = Some ev"
    by (simp add: Event_ctor_def example_var_map_def)
  have n: "nsteps ev = 2"
    using ev by (auto simp add: Event_ctor_def example_var_map_def Let_def)
  have "TR (call_compute_reduced_thickness (ev\<lparr>TA := [[1, 4], [0, 2]], TB := [[1, 1], [5, 2]]\<rparr>))
           ! 0 ! 1 = 5 / 2"
    using generalized_mean_selection [OF ev, of "[[1, 4], [0, 2]]" "[[1, 1], [5, 2]]" 0 1]
    by (simp add: n wf_grid_def nonneg_grid_def example_var_map_def spec_mean_def)
  then show ?thesis
    using ev by blast
qed

section \<open>The observable passes\<close>


























section \<open>Bounds on the eccentricity\<close>










section \<open>The output vector\<close>







section \<open>The moment terms and the naive formulation\<close>

lemma arctan_ratio:
  assumes "x \<noteq> 0"
  shows "cos (arctan (y / x)) = \<bar>x\<bar> / sqrt (x * x + y * y)"
    and "sin (arctan (y / x)) = y / x * \<bar>x\<bar> / sqrt (x * x + y * y)"
proof -
  have "1 + (y / x)\<^sup>2 = (x * x + y * y) / (x * x)"
    using assms by (simp add: power2_eq_square field_simps)
  then have "sqrt (1 + (y / x)\<^sup>2) = sqrt (x * x + y * y) / \<bar>x\<bar>"
    by (simp add: real_sqrt_divide)
  then show "cos (arctan (y / x)) = \<bar>x\<bar> / sqrt (x * x + y * y)"
    and "sin (arctan (y / x)) = y / x * \<bar>x\<bar> / sqrt (x * x + y * y)"
    by (simp_all add: cos_arctan sin_arctan)
qed

lemma atan2_polar:
  assumes "x \<noteq> 0 \<or> y \<noteq> 0"
  shows "cos (atan2 y x) = x / sqrt (x * x + y * y)"
    and "sin (atan2 y x) = y / sqrt (x * x + y * y)"
proof -
  consider "0 < x" | "x < 0" | "x = 0" "0 < y" | "x = 0" "y < 0"
    using assms by linarith
  then have "cos (atan2 y x) = x / sqrt (x * x + y * y)
           \<and> sin (atan2 y x) = y / sqrt (x * x + y * y)"
  proof cases
    case 1
    then show ?thesis
      using arctan_ratio [of x y] by (simp add: atan2_def)
  next
    case 2
    then show ?thesis
      using arctan_ratio [of x y] by (simp add: atan2_def)
  next
    case 3
    then show ?thesis
      by (simp add: atan2_def)
  next
    case 4
    then show ?thesis
      by (simp add: atan2_def)
  qed
  then show "cos (atan2 y x) = x / sqrt (x * x + y * y)"
    and "sin (atan2 y x) = y / sqrt (x * x + y * y)"
    by simp_all
qed

lemma complex_polar:
  "Complex x y = of_real (sqrt (x * x + y * y)) * cis (atan2 y x)"
proof (cases "x \<noteq> 0 \<or> y \<noteq> 0")
  case False
  then show ?thesis
    by (simp add: complex_eq_iff)
next
  case True
  then have "x * x + y * y \<noteq> 0"
    by simp
  then have "sqrt (x * x + y * y) \<noteq> 0"
    by simp
  then show ?thesis
    by (simp add: complex_eq_iff atan2_polar [OF True])
qed

lemma complex_power_polar:
  "Complex x y ^ n = of_real (sqrt (x * x + y * y) ^ n) * cis (real n * atan2 y x)"
proof -
  have "Complex x y ^ n = (of_real (sqrt (x * x + y * y)) * cis (atan2 y x)) ^ n"
    by (simp only: complex_polar [symmetric])
  then show ?thesis
    by (simp add: power_mult_distrib DeMoivre)
qed

lemma harmonic_complex:
  assumes "n \<in> {2, 3, 4, 5}"
  shows "harmonic_re n t x y = t * Re (Complex y x ^ n)"
    and "harmonic_im n t x y = t * Im (Complex y x ^ n)"
proof -
  have p2: "Complex y x ^ 2 = Complex (y * y - x * x) (2 * x * y)"
    by (simp add: power2_eq_square complex_eq_iff)
  have p3: "Complex y x ^ 3 = Complex (y * y * y - 3 * y * (x * x)) (3 * x * (y * y) - x * x * x)"
    by (simp add: power3_eq_cube complex_eq_iff algebra_simps)
  have p4: "Complex y x ^ 4
      = Complex (x * x * (x * x) + y * y * (y * y) - 6 * (x * x * (y * y)))
                (4 * (x * y) * (y * y - x * x))"
    by (simp add: power4_eq_xxxx complex_eq_iff algebra_simps)
  have "Complex y x ^ 5 = Complex y x ^ 4 * Complex y x"
    by (simp add: numeral_eq_Suc)
  then have p5: "Complex y x ^ 5
      = Complex (y * (5 * (x * x * (x * x)) - 10 * (x * x * (y * y)) + y * y * (y * y)))
                (x * (x * x * (x * x) - 10 * (x * x * (y * y)) + 5 * (y * y * (y * y))))"
    by (simp add: p4 complex_eq_iff algebra_simps)
  have "n = 2 \<or> n = 3 \<or> n = 4 \<or> n = 5"
    using assms by auto
  then show "harmonic_re n t x y = t * Re (Complex y x ^ n)"
    and "harmonic_im n t x y = t * Im (Complex y x ^ n)"
    using p2 p3 p4 p5
    by (auto simp add: harmonic_re_def harmonic_im_def Let_def algebra_simps)
qed

text \<open>
  The polynomial terms are the real and imaginary part of \<open>t * (y + i x)^n\<close>: the terms
  of the naive formulation with \<open>x\<close> and \<open>y\<close> exchanged, that is, with the angle taken
  from the \<open>y\<close> axis.
\<close>

lemma harmonic_from_y_axis:
  assumes "n \<in> {2, 3, 4, 5}"
  shows "harmonic_re n t x y = naive_re n t y x"
    and "harmonic_im n t x y = naive_im n t y x"
  by (simp_all add: harmonic_complex [OF assms] complex_power_polar naive_re_def naive_im_def)

text \<open>
  C6. At the cell \<open>(x, y) = (1, 0)\<close> with value \<open>1\<close> the polynomial terms of the source
  and the terms of the naive formulation differ: the real part of order \<open>2\<close> is \<open>-1\<close>
  against \<open>1\<close>, the imaginary part of order \<open>3\<close> is \<open>-1\<close> against \<open>0\<close>.
\<close>

theorem moment_terms_differ:
  "harmonic_re 2 1 1 0 = - 1 \<and> naive_re 2 1 1 0 = 1
   \<and> harmonic_im 3 1 1 0 = - 1 \<and> naive_im 3 1 1 0 = 0"
  by (simp add: harmonic_re_def harmonic_im_def naive_re_def naive_im_def atan2_def)

section \<open>A zero sum\<close>

lemma example_TA:
  "compute_nuclear_thickness (example_event\<lparr>npart := 0\<rparr>) example_nucleus example_common
     (TA example_event) = Some ([[0, 0], [3, 0]], 1)"
  by (simp add: compute_nuclear_thickness_def wipe_def example_event_def example_nucleus_def
      deposit_nucleon_def example_common_def grid_index_def clip_def to_int_def add_profile_def
      grid_add_def)

lemma example_TB:
  "compute_nuclear_thickness (example_event\<lparr>npart := 1\<rparr>) other_nucleus example_common
     (TB example_event) = Some ([[0, 3], [0, 0]], 2)"
  by (simp add: compute_nuclear_thickness_def wipe_def example_event_def other_nucleus_def
      deposit_nucleon_def example_common_def grid_index_def clip_def to_int_def add_profile_def
      grid_add_def)

lemma example_no_overlap:
  "call_compute_reduced_thickness
     (example_event\<lparr>TA := [[0, 0], [3, 0]], TB := [[0, 3], [0, 0]], npart := 2\<rparr>)
   = example_event\<lparr>TA := [[0, 0], [3, 0]], TB := [[0, 3], [0, 0]], npart := 2,
       TR := [[0, 0], [0, 0]], multiplicity := 0, ixcm := NaN, iycm := NaN\<rparr>"
  by (simp add: call_compute_reduced_thickness_def compute_reduced_thickness_def reduce_loops_def
      reduce_cell_def example_event_def geometric_mean_def fdiv_def upt_rec numeral_eq_Suc)


lemma pass_all_skipped:
  "pass body (example_event\<lparr>TA := A, TB := B, npart := np,
       TR := [[0, 0], [0, 0]], multiplicity := m, ixcm := NaN, iycm := NaN\<rparr>) s = Some s"
  by (simp add: pass_def at_cell_def example_event_def TINY_def upt_rec numeral_eq_Suc)

text \<open>
  C2, as stated, fails: for two nuclei whose participants lie in different cells the
  reduced thickness is zero everywhere; the multiplicity is \<open>0\<close>, the centre of mass is
  \<open>0/0\<close>, not a number, and the radius in slot \<open>9\<close> is a quotient by \<open>total_ent = 0\<close>,
  an infinity.
\<close>

theorem no_overlap_not_finite:
  "map_option multiplicity (compute example_event example_nucleus other_nucleus example_common)
     = Some 0
   \<and> map_option ixcm (compute example_event example_nucleus other_nucleus example_common)
     = Some NaN
   \<and> map_option iycm (compute example_event example_nucleus other_nucleus example_common)
     = Some NaN
   \<and> map_option (\<lambda>ev. eccentricity ev 9)
       (compute example_event example_nucleus other_nucleus example_common)
     = Some (Some Inf)"
proof -
  have npart: "example_event\<lparr>npart := 0\<rparr> = example_event"
    by (simp add: example_event_def)
  have "compute example_event example_nucleus other_nucleus example_common
      = compute_observables
          (example_event\<lparr>TA := [[0, 0], [3, 0]], TB := [[0, 3], [0, 0]], npart := 2,
             TR := [[0, 0], [0, 0]], multiplicity := 0, ixcm := NaN, iycm := NaN\<rparr>)"
    by (simp add: compute_def example_TA example_TB example_no_overlap)
  then show ?thesis
    by (simp add: compute_observables_def ecc_pass_def angle_pass_def radius_pass_def
        pass_all_skipped radius_finish_def zero_acc_def fdiv_def TINY_def)
       (simp add: example_event_def)
qed

lemma fdiv_zero: "\<not> is_finite (fdiv a 0)"
  by (simp add: fdiv_def is_finite_def)

lemma ecc_finish_guarded:
  "0 \<le> ecc_finish a \<and> ecc_finish a * TINY \<le> sqrt (re a * re a + im a * im a)"
proof -
  let ?S = "sqrt (re a * re a + im a * im a)"
  have pos: "0 < max (wt a) TINY" and le: "TINY \<le> max (wt a) TINY" and tiny: "0 < TINY"
    by (simp_all add: TINY_def max_def)
  have S: "0 \<le> ?S"
    by simp
  have "?S * TINY \<le> ?S * max (wt a) TINY"
    using S le by (rule mult_left_mono [rotated])
  then have "?S / max (wt a) TINY * TINY \<le> ?S"
    using pos by (simp add: field_simps)
  then show ?thesis
    using pos S by (simp add: ecc_finish_def)
qed

text \<open>
  C2, as amended. When the sum of the reduced thickness over all cells is zero, the
  multiplicity is \<open>0\<close> and the centre of mass is not finite: its quotients by the sum are
  not guarded and there is no fallback. The quotient of an eccentricity magnitude is
  guarded by the floor \<open>1e-12\<close>: the magnitude is at most the modulus of the moment
  divided by \<open>1e-12\<close>.
\<close>

theorem zero_sum_no_fallback:
  assumes "wf_event ev"
    and "(\<Sum>row\<leftarrow>TR (compute_reduced_thickness mean ev). sum_list row) = 0"
  shows "multiplicity (compute_reduced_thickness mean ev) = 0
       \<and> \<not> is_finite (ixcm (compute_reduced_thickness mean ev))
       \<and> \<not> is_finite (iycm (compute_reduced_thickness mean ev))
       \<and> 0 \<le> ecc_finish a
       \<and> ecc_finish a * (1 / 10 ^ 12) \<le> sqrt (re a * re a + im a * im a)"
proof -
  have wf: "wf_grid (nsteps ev) (TR ev)"
    using assms(1) by (simp add: wf_event_def)
  let ?n = "nat (nsteps ev)"
  have "(\<Sum>iy\<leftarrow>[0..<?n]. \<Sum>ix\<leftarrow>[0..<?n]. cell_value mean ev iy ix) = 0"
    using assms(2)
    by (simp add: compute_reduced_thickness_def reduce_loops_eq [OF wf] comp_def)
  then have "multiplicity (compute_reduced_thickness mean ev) = 0
       \<and> \<not> is_finite (ixcm (compute_reduced_thickness mean ev))
       \<and> \<not> is_finite (iycm (compute_reduced_thickness mean ev))"
    by (simp add: compute_reduced_thickness_def reduce_loops_eq [OF wf] fdiv_zero)
  then show ?thesis
    using ecc_finish_guarded [of a] by (simp add: TINY_def)
qed

theorem zero_sum_no_fallback_witness:
  "multiplicity (compute_reduced_thickness geometric_mean
       (example_event\<lparr>TA := [[0, 0], [3, 0]], TB := [[0, 3], [0, 0]]\<rparr>)) = 0
   \<and> \<not> is_finite (ixcm (compute_reduced_thickness geometric_mean
       (example_event\<lparr>TA := [[0, 0], [3, 0]], TB := [[0, 3], [0, 0]]\<rparr>)))
   \<and> ecc_finish \<lparr>re = 3, im = 4, wt = 10\<rparr> * (1 / 10 ^ 12) \<le> 5"
proof -
  let ?ev = "example_event\<lparr>TA := [[0, 0], [3, 0]], TB := [[0, 3], [0, 0]]\<rparr>"
  have wf: "wf_event ?ev"
    by (simp add: wf_event_def wf_grid_def example_event_def)
  have z: "(\<Sum>row\<leftarrow>TR (compute_reduced_thickness geometric_mean ?ev). sum_list row) = 0"
    by (simp add: compute_reduced_thickness_def reduce_loops_def reduce_cell_def
        example_event_def geometric_mean_def upt_rec numeral_eq_Suc)
  have "sqrt (3 * 3 + 4 * 4) = sqrt (5\<^sup>2)"
    by (simp add: power2_eq_square)
  then have s: "sqrt (3 * 3 + 4 * 4) = 5"
    by (simp only: real_sqrt_abs)
  show ?thesis
    using zero_sum_no_fallback [OF wf z, of "\<lparr>re = 3, im = 4, wt = 10\<rparr>"] s by simp
qed

end
